theory Spec2Isabelle
  imports Main
begin

section \<open>The text of \<^verbatim>\<open>EEMS_Pro/version.py\<close>\<close>

text \<open>
  The module is a changelog: assignments of a string literal to \<^verbatim>\<open>__version__\<close>,
  interleaved with comment lines and blank lines. The file is kept as it is, one string
  per physical line, trailing blanks included; everything below is computed from it.
\<close>

definition version_py :: "string list" where
  \<open>version_py = [
    ''__version__ = "1.0.4"'',
    '''',
    ''# Pandas version 2.0.2 (which is distributed with later versions of ArcGIS Pro) has a bug described here: '',
    ''# https://github.com/pandas-dev/pandas/issues/46178 '',
    ''# This was causing an error during the SPDF join (merge), likely because the values in the CSVID field of the EEMS '',
    ''# output CSV were being cast to floats during the pd.read_csv() call. '',
    ''# The fix was to explicitly cast the CSVID field to an Int32 within the pd.read_csv() call. '',
    '''',
    ''__version__ = "1.0.3"'',
    '''',
    ''# Use &MediumSpace; instead of &nbsp; in the command file metadata to allow text wrapping in custom web applications.     '',
    ''__version__ = "1.0.2"'',
    '''',
    ''# Fix NoneType error introduced by writing header to command file   '',
    '''',
    ''__version__ = "1.0.1"'',
    '''',
    ''# Check for Non-ASCII Characters '',
    '''',
    ''__version__ = "1.0.0"'',
    '''',
    ''# Production Release'',
    '''',
    ''__version__ = "0.9.0"'',
    '''',
    ''# Internal Release for BETA Testing'',
    '''',
    ''#__version__ = "0.0.3"'',
    '''',
    ''# Add ArcGIS Desktop Compatibility '',
    '''',
    ''#__version__ = "0.0.2"'',
    '''',
    ''# Implement Spatially Enabled Data Frame/Pandas Join'',
    '''',
    ''#__version__ = "0.0.1"'',
    '''',
    ''# Initialize ArcGIS Pro Compatible Version  ''
  ]\<close>

section \<open>The fragment of Python the module is written in\<close>

text \<open>
  The text is taken as decoded, and the values the fragment computes are strings. The
  errors are those of Python, and \<^verbatim>\<open>Unsupported\<close> for a line outside the fragment,
  about which the model says nothing.
\<close>

datatype error = SyntaxError | IndentationError | AttributeError | Unsupported

datatype stmt = Assign string string

type_synonym env = "string \<rightharpoonup> string"

definition is_space :: "char \<Rightarrow> bool" where
  "is_space c = (c = CHR 0x20 \<or> c = CHR 0x09)"

definition is_digit :: "char \<Rightarrow> bool" where
  "is_digit c = (c \<in> set ''0123456789'')"

definition is_ident_start :: "char \<Rightarrow> bool" where
  "is_ident_start c =
     (c \<in> set ''_abcdefghijklmnopqrstuvwxyzABCDEFGHIJKLMNOPQRSTUVWXYZ'')"

definition is_ident_char :: "char \<Rightarrow> bool" where
  "is_ident_char c = (is_ident_start c \<or> is_digit c)"

definition lstrip :: "string \<Rightarrow> string" where
  "lstrip s = dropWhile is_space s"

definition rstrip :: "string \<Rightarrow> string" where
  "rstrip s = rev (dropWhile is_space (rev s))"

text \<open>
  What the tokenizer makes of one physical line: nothing for a blank line, nothing for a
  line whose first character after the indentation is \<^verbatim>\<open>#\<close> (the text after the
  marker is kept), a logical line otherwise, with the width of its indentation.
\<close>

datatype line_kind = Blank | Comment string | Logical nat string

definition classify :: "string \<Rightarrow> line_kind" where
  "classify l =
     (case lstrip l of
        [] \<Rightarrow> Blank
      | c # cs \<Rightarrow>
          if c = CHR 0x23 then Comment cs
          else Logical (length (takeWhile is_space l)) (c # cs))"

text \<open>
  The tail of a logical line after its last token: blanks, then the end of the line or a
  comment.
\<close>

definition line_ends :: "string \<Rightarrow> bool" where
  "line_ends s = (case lstrip s of [] \<Rightarrow> True | c # cs \<Rightarrow> c = CHR 0x23)"

text \<open>
  A double-quoted string literal, from the character after the opening quote: the
  literal's value and the rest of the line after the closing quote. The line ending
  inside the literal is a \<^verbatim>\<open>SyntaxError\<close>; a backslash (an escape or a continuation)
  is outside the fragment.
\<close>

definition string_literal :: "string \<Rightarrow> error + (string \<times> string)" where
  "string_literal s =
     (let body = takeWhile (\<lambda>c. c \<noteq> CHR 0x22 \<and> c \<noteq> CHR 0x5C) s in
      case drop (length body) s of
        [] \<Rightarrow> Inl SyntaxError
      | c # rest \<Rightarrow> if c = CHR 0x22 then Inr (body, rest) else Inl Unsupported)"

text \<open>The names no assignment can bind.\<close>

definition py_keywords :: "string list" where
  "py_keywords =
     [''False'', ''None'', ''True'', ''and'', ''as'', ''assert'', ''async'', ''await'',
      ''break'', ''class'', ''continue'', ''def'', ''del'', ''elif'', ''else'', ''except'',
      ''finally'', ''for'', ''from'', ''global'', ''if'', ''import'', ''in'', ''is'',
      ''lambda'', ''nonlocal'', ''not'', ''or'', ''pass'', ''raise'', ''return'', ''try'',
      ''while'', ''with'', ''yield'', ''__debug__'']"

text \<open>
  The one statement form of the module, \<^verbatim>\<open>NAME = "literal"\<close>, with blanks around the
  tokens and a comment after them allowed. A line of this form whose target is a keyword
  is a \<^verbatim>\<open>SyntaxError\<close>; a logical line of any other form is outside the fragment.
\<close>

definition parse_assign :: "string \<Rightarrow> error + stmt" where
  "parse_assign s =
     (let name = takeWhile is_ident_char s in
      case name of
        [] \<Rightarrow> Inl Unsupported
      | n # ns \<Rightarrow>
          if is_digit n then Inl Unsupported
          else
            (case lstrip (drop (length name) s) of
               [] \<Rightarrow> Inl Unsupported
             | e # after_eq \<Rightarrow>
                 if e = CHR 0x3D then
                   (case lstrip after_eq of
                      [] \<Rightarrow> Inl Unsupported
                    | q # after_quote \<Rightarrow>
                        if q = CHR 0x22 then
                          (case string_literal after_quote of
                             Inl err \<Rightarrow> Inl err
                           | Inr (v, rest) \<Rightarrow>
                               if line_ends rest then
                                 (if name \<in> set py_keywords then Inl SyntaxError
                                  else Inr (Assign name v))
                               else Inl Unsupported)
                        else Inl Unsupported)
                 else Inl Unsupported))"

text \<open>
  One physical line of a module body: no statement for a blank or comment line, an
  \<^verbatim>\<open>IndentationError\<close> for an indented statement at top level, the assignment or
  the error of the logical line otherwise.
\<close>

definition parse_line :: "string \<Rightarrow> error + stmt option" where
  "parse_line l =
     (case classify l of
        Blank \<Rightarrow> Inr None
      | Comment body \<Rightarrow> Inr None
      | Logical indent s \<Rightarrow>
          if 0 < indent then Inl IndentationError
          else (case parse_assign s of
                  Inl err \<Rightarrow> Inl err
                | Inr st \<Rightarrow> Inr (Some st)))"

text \<open>The whole file is compiled before any statement runs: the first bad line wins.\<close>

fun parse_module :: "string list \<Rightarrow> error + stmt list" where
  "parse_module [] = Inr []"
| "parse_module (l # ls) =
     (case parse_line l of
        Inl e \<Rightarrow> Inl e
      | Inr None \<Rightarrow> parse_module ls
      | Inr (Some st) \<Rightarrow>
          (case parse_module ls of
             Inl e \<Rightarrow> Inl e
           | Inr sts \<Rightarrow> Inr (st # sts)))"

text \<open>
  Statements run in file order against the module's globals; an assignment rebinds its
  target, whatever it was bound to before.
\<close>

fun exec_stmt :: "env \<Rightarrow> stmt \<Rightarrow> env" where
  "exec_stmt globals (Assign name v) = globals(name \<mapsto> v)"

fun exec_stmts :: "env \<Rightarrow> stmt list \<Rightarrow> env" where
  "exec_stmts globals [] = globals"
| "exec_stmts globals (st # sts) = exec_stmts (exec_stmt globals st) sts"

text \<open>
  Importing a module: compile its lines, then run them on the globals the interpreter
  starts the module with (\<^verbatim>\<open>__name__\<close>, \<^verbatim>\<open>__file__\<close> and the like, which depend
  on where and how the module is loaded).
\<close>

definition import_module :: "string list \<Rightarrow> env \<Rightarrow> error + env" where
  "import_module ls globals =
     (case parse_module ls of
        Inl e \<Rightarrow> Inl e
      | Inr sts \<Rightarrow> Inr (exec_stmts globals sts))"

definition version_name :: string where
  "version_name = ''__version__''"

text \<open>
  Reporting the current version: import the module and read its \<^verbatim>\<open>__version__\<close>
  attribute, an \<^verbatim>\<open>AttributeError\<close> when the name is not bound.
\<close>

definition current_version :: "string list \<Rightarrow> env \<Rightarrow> error + string" where
  "current_version ls globals =
     (case import_module ls globals of
        Inl e \<Rightarrow> Inl e
      | Inr g \<Rightarrow>
          (case g version_name of
             None \<Rightarrow> Inl AttributeError
           | Some v \<Rightarrow> Inr v))"

section \<open>The release log the file records\<close>

text \<open>
  A line is commented out when it carries the leading comment marker \<^verbatim>\<open>#\<close>: the
  marker is its first character after the indentation.
\<close>

definition commented_out :: "string \<Rightarrow> bool" where
  "commented_out l = (case lstrip l of [] \<Rightarrow> False | c # cs \<Rightarrow> c = CHR 0x23)"

text \<open>The literal a piece of text assigns to \<^verbatim>\<open>__version__\<close>, when it is such an assignment.\<close>

definition version_assigned :: "string \<Rightarrow> string option" where
  "version_assigned s =
     (case parse_assign s of
        Inl err \<Rightarrow> None
      | Inr (Assign name v) \<Rightarrow> if name = version_name then Some v else None)"

text \<open>
  A line opens a release record when it assigns \<^verbatim>\<open>__version__\<close>, as a statement (a
  shipped version) or behind the comment marker (an internal or draft version). The
  result is the version and whether it is released.
\<close>

definition entry_of_line :: "string \<Rightarrow> (string \<times> bool) option" where
  "entry_of_line l =
     (case classify l of
        Blank \<Rightarrow> None
      | Comment body \<Rightarrow>
          (case version_assigned (lstrip body) of
             None \<Rightarrow> None
           | Some v \<Rightarrow> Some (v, False))
      | Logical indent s \<Rightarrow>
          (case version_assigned s of
             None \<Rightarrow> None
           | Some v \<Rightarrow> Some (v, True)))"

record release_record =
  version :: string
  note_lines :: "string list"
  released :: bool

text \<open>
  The rationale of a record: the comment lines below its assignment, up to the next
  record's line.
\<close>

definition comment_text :: "string \<Rightarrow> string list" where
  "comment_text l =
     (case classify l of Comment body \<Rightarrow> [rstrip (lstrip body)] | _ \<Rightarrow> [])"

definition note_below :: "string list \<Rightarrow> string list" where
  "note_below ls =
     concat (map comment_text (takeWhile (\<lambda>l. entry_of_line l = None) ls))"

fun release_log :: "string list \<Rightarrow> release_record list" where
  "release_log [] = []"
| "release_log (l # ls) =
     (case entry_of_line l of
        None \<Rightarrow> release_log ls
      | Some (v, r) \<Rightarrow>
          \<lparr>version = v, note_lines = note_below ls, released = r\<rparr> # release_log ls)"

section \<open>Version strings and their order\<close>

text \<open>\<^verbatim>\<open>s.split(d)\<close> of Python: the pieces between the separators, empty ones kept.\<close>

fun split_on :: "char \<Rightarrow> string \<Rightarrow> string list" where
  "split_on d [] = [[]]"
| "split_on d (c # cs) =
     (if c = d then [] # split_on d cs
      else (case split_on d cs of
              [] \<Rightarrow> [[c]]
            | w # ws \<Rightarrow> (c # w) # ws))"

definition digit_value :: "char \<Rightarrow> nat" where
  "digit_value c = of_char c - 48"

definition decimal :: "string \<Rightarrow> nat option" where
  "decimal s =
     (if s \<noteq> [] \<and> list_all is_digit s
      then Some (foldl (\<lambda>n c. 10 * n + digit_value c) 0 s)
      else None)"

text \<open>
  A version string is a non-empty sequence of decimal numbers separated by dots; it is
  read as the list of its numbers.
\<close>

definition parse_semver :: "string \<Rightarrow> nat list option" where
  "parse_semver s = those (map decimal (split_on CHR 0x2E s))"

definition is_semver :: "string \<Rightarrow> bool" where
  "is_semver s = (parse_semver s \<noteq> None)"

text \<open>Versions compare component by component, the leftmost difference deciding.\<close>

fun lex_less :: "nat list \<Rightarrow> nat list \<Rightarrow> bool" where
  "lex_less [] [] = False"
| "lex_less [] (y # ys) = True"
| "lex_less (x # xs) [] = False"
| "lex_less (x # xs) (y # ys) = (x < y \<or> (x = y \<and> lex_less xs ys))"

definition semver_less :: "string \<Rightarrow> string \<Rightarrow> bool" where
  "semver_less a b =
     (case parse_semver a of
        None \<Rightarrow> False
      | Some x \<Rightarrow> (case parse_semver b of None \<Rightarrow> False | Some y \<Rightarrow> lex_less x y))"

text \<open>
  The most recent of a list of versions is the greatest one: recency is read off the
  version numbers, not off the position in the file.
\<close>

fun newest :: "string list \<Rightarrow> string option" where
  "newest [] = None"
| "newest (v # vs) =
     (case newest vs of
        None \<Rightarrow> Some v
      | Some w \<Rightarrow> if semver_less v w then Some w else Some v)"

definition latest_release :: "release_record list \<Rightarrow> string option" where
  "latest_release log = newest (map version (filter released log))"

section \<open>Evaluating the file\<close>

lemmas lexer_defs =
  is_space_def is_digit_def is_ident_start_def is_ident_char_def lstrip_def rstrip_def
  classify_def line_ends_def string_literal_def py_keywords_def parse_assign_def

lemma parse_version_py:
  "parse_module version_py =
     Inr [Assign version_name ''1.0.4'', Assign version_name ''1.0.3'',
          Assign version_name ''1.0.2'', Assign version_name ''1.0.1'',
          Assign version_name ''1.0.0'', Assign version_name ''0.9.0'']"
  by (simp add: version_py_def version_name_def parse_line_def lexer_defs)

lemma current_version_py: "current_version version_py globals = Inr ''0.9.0''"
  by (simp add: current_version_def import_module_def parse_version_py)

lemma log_version_py:
  "map (\<lambda>r. (version r, released r)) (release_log version_py) =
     [(''1.0.4'', True), (''1.0.3'', True), (''1.0.2'', True), (''1.0.1'', True),
      (''1.0.0'', True), (''0.9.0'', True),
      (''0.0.3'', False), (''0.0.2'', False), (''0.0.1'', False)]"
  by (simp add: version_py_def version_name_def entry_of_line_def version_assigned_def
        lexer_defs)

lemma versions_version_py:
  "map version (release_log version_py) =
     [''1.0.4'', ''1.0.3'', ''1.0.2'', ''1.0.1'', ''1.0.0'', ''0.9.0'',
      ''0.0.3'', ''0.0.2'', ''0.0.1'']"
proof -
  have "map version (release_log version_py) =
          map fst (map (\<lambda>r. (version r, released r)) (release_log version_py))"
    by (simp add: comp_def)
  then show ?thesis by (simp add: log_version_py)
qed

lemma released_version_py:
  "map version (filter released (release_log version_py)) =
     [''1.0.4'', ''1.0.3'', ''1.0.2'', ''1.0.1'', ''1.0.0'', ''0.9.0'']"
proof -
  have shipped: "map version (filter released xs) =
          map fst (filter snd (map (\<lambda>r. (version r, released r)) xs))"
    for xs :: "release_record list"
    by (induction xs) simp_all
  show ?thesis by (subst shipped) (simp add: log_version_py)
qed

lemma draft_version_py:
  "map version (filter (\<lambda>r. \<not> released r) (release_log version_py)) =
     [''0.0.3'', ''0.0.2'', ''0.0.1'']"
proof -
  have drafted: "map version (filter (\<lambda>r. \<not> released r) xs) =
          map fst (filter (\<lambda>p. \<not> snd p) (map (\<lambda>r. (version r, released r)) xs))"
    for xs :: "release_record list"
    by (induction xs) simp_all
  show ?thesis by (subst drafted) (simp add: log_version_py)
qed

lemma version_numbers:
  "parse_semver ''1.0.4'' = Some [1, 0, 4]"
  "parse_semver ''1.0.3'' = Some [1, 0, 3]"
  "parse_semver ''1.0.2'' = Some [1, 0, 2]"
  "parse_semver ''1.0.1'' = Some [1, 0, 1]"
  "parse_semver ''1.0.0'' = Some [1, 0, 0]"
  "parse_semver ''0.9.0'' = Some [0, 9, 0]"
  "parse_semver ''0.0.3'' = Some [0, 0, 3]"
  "parse_semver ''0.0.2'' = Some [0, 0, 2]"
  "parse_semver ''0.0.1'' = Some [0, 0, 1]"
  by (simp_all add: parse_semver_def decimal_def digit_value_def is_digit_def)

lemma notes_version_py:
  "map note_lines (release_log version_py) =
     [[''Pandas version 2.0.2 (which is distributed with later versions of ArcGIS Pro) has a bug described here:'',
       ''https://github.com/pandas-dev/pandas/issues/46178'',
       ''This was causing an error during the SPDF join (merge), likely because the values in the CSVID field of the EEMS'',
       ''output CSV were being cast to floats during the pd.read_csv() call.'',
       ''The fix was to explicitly cast the CSVID field to an Int32 within the pd.read_csv() call.''],
      [''Use &MediumSpace; instead of &nbsp; in the command file metadata to allow text wrapping in custom web applications.''],
      [''Fix NoneType error introduced by writing header to command file''],
      [''Check for Non-ASCII Characters''],
      [''Production Release''],
      [''Internal Release for BETA Testing''],
      [''Add ArcGIS Desktop Compatibility''],
      [''Implement Spatially Enabled Data Frame/Pandas Join''],
      [''Initialize ArcGIS Pro Compatible Version'']]"
  by (simp add: version_py_def version_name_def entry_of_line_def version_assigned_def
        note_below_def comment_text_def lexer_defs)

text \<open>
  The errors of the embedding are reachable on other module texts: a module that never
  binds the name, an indented statement, a literal left open, a keyword as the target, a
  statement outside the fragment.
\<close>

lemma current_version_errors:
  "current_version [] Map.empty = Inl AttributeError"
  "current_version [''#__version__ = \"0.0.1\"''] Map.empty = Inl AttributeError"
  "current_version ['' __version__ = \"1.0.4\"''] globals = Inl IndentationError"
  "current_version [''__version__ = \"1.0.4''] globals = Inl SyntaxError"
  "current_version [''None = \"1.0.4\"''] globals = Inl SyntaxError"
  "current_version [''import os''] globals = Inl Unsupported"
  by (simp_all add: current_version_def import_module_def parse_line_def lexer_defs)

section \<open>Comments do not run\<close>

lemma parse_line_commented_out: "commented_out l \<Longrightarrow> parse_line l = Inr None"
  by (simp add: commented_out_def parse_line_def classify_def split: list.splits)

lemma parse_module_without_comments:
  "parse_module (filter (\<lambda>l. \<not> commented_out l) ls) = parse_module ls"
  by (induction ls)
    (simp_all add: parse_line_commented_out split: sum.splits option.splits)

lemma entry_released_iff:
  "entry_of_line l = Some (v, r) \<Longrightarrow> r = (\<not> commented_out l)"
  by (auto simp add: entry_of_line_def commented_out_def classify_def
        split: list.splits option.splits if_splits)

text \<open>The last assignment to a name is the one that stays.\<close>

lemma exec_stmts_append:
  "exec_stmts globals (sts @ sts') = exec_stmts (exec_stmts globals sts) sts'"
  by (induction sts arbitrary: globals) simp_all

lemma exec_stmts_last_assignment:
  "exec_stmts globals (sts @ [Assign name v]) name = Some v"
  by (simp add: exec_stmts_append)

section \<open>The version the module reports\<close>

text \<open>
  Claim C1 says that the \<^verbatim>\<open>__version__\<close> binding left by executing the file is the
  version of the most recent released record, the string \<^verbatim>\<open>1.0.4\<close>. The most recent
  released record of the log is indeed 1.0.4, but for every starting state the module
  reports something else: the six uncommented assignments run from the newest down, and
  the binding that stays is the oldest of them.
\<close>

theorem reported_version_not_latest_release:
  "latest_release (release_log version_py) = Some ''1.0.4'' \<and>
   current_version version_py globals \<noteq> Inr ''1.0.4''"
proof
  show "latest_release (release_log version_py) = Some ''1.0.4''"
    by (simp add: latest_release_def released_version_py semver_less_def version_numbers)
  show "current_version version_py globals \<noteq> Inr ''1.0.4''"
    by (simp add: current_version_py)
qed

text \<open>
  Claim C3: executing the uncommented assignments from the top of the file to its bottom
  leaves \<^verbatim>\<open>__version__\<close> bound to the value of the textually last uncommented
  assignment, \<^verbatim>\<open>0.9.0\<close>, and no commented-out assignment affects the result: deleting
  every commented-out line of any module text changes nothing of what it reports.
\<close>

theorem version_is_last_uncommented_assignment:
  "current_version version_py globals = Inr ''0.9.0'' \<and>
   (case parse_module version_py of
      Inl e \<Rightarrow> False
    | Inr sts \<Rightarrow> sts \<noteq> [] \<and> last sts = Assign version_name ''0.9.0'') \<and>
   current_version (filter (\<lambda>l. \<not> commented_out l) ls) g = current_version ls g"
proof (intro conjI)
  show "current_version version_py globals = Inr ''0.9.0''"
    by (rule current_version_py)
  show "case parse_module version_py of
          Inl e \<Rightarrow> False
        | Inr sts \<Rightarrow> sts \<noteq> [] \<and> last sts = Assign version_name ''0.9.0''"
    by (simp add: parse_version_py)
  show "current_version (filter (\<lambda>l. \<not> commented_out l) ls) g = current_version ls g"
    by (simp add: current_version_def import_module_def parse_module_without_comments)
qed

text \<open>
  Claim C7: evaluating the module and reporting the current version cannot fail. From
  every starting state the operation returns a result that is a version string (dot
  separated decimal numbers), and it returns none of the errors of the embedding.
\<close>

theorem current_version_total:
  "(\<exists>v. current_version version_py globals = Inr v \<and> is_semver v) \<and>
   (\<forall>e. current_version version_py globals \<noteq> Inl e)"
proof
  have "is_semver ''0.9.0''"
    by (simp add: is_semver_def version_numbers)
  then show "\<exists>v. current_version version_py globals = Inr v \<and> is_semver v"
    by (simp add: current_version_py)
  show "\<forall>e. current_version version_py globals \<noteq> Inl e"
    by (simp add: current_version_py)
qed

text \<open>
  Claim C9: evaluating the module is deterministic and independent of its input. Two
  evaluations, started from any two states of the module's globals, report the same
  version string.
\<close>

theorem current_version_input_independent:
  "current_version version_py g1 = current_version version_py g2"
  by (simp add: current_version_py)

section \<open>The records of the log\<close>

text \<open>
  Claim C4: a record is unreleased exactly when its assignment line carries the leading
  comment marker. Precisely the records 0.0.3, 0.0.2 and 0.0.1 are drafts, and the six
  records from 1.0.4 down to 0.9.0 are released.
\<close>

theorem released_iff_not_commented_out:
  "(\<forall>l v r. entry_of_line l = Some (v, r) \<longrightarrow> r = (\<not> commented_out l)) \<and>
   map version (filter (\<lambda>r. \<not> released r) (release_log version_py)) =
     [''0.0.3'', ''0.0.2'', ''0.0.1''] \<and>
   map version (filter released (release_log version_py)) =
     [''1.0.4'', ''1.0.3'', ''1.0.2'', ''1.0.1'', ''1.0.0'', ''0.9.0'']"
  using entry_released_iff
  by (simp add: draft_version_py released_version_py)

theorem released_iff_not_commented_out_witness:
  "entry_of_line (version_py ! 27) = Some (''0.0.3'', False) \<and>
   commented_out (version_py ! 27) \<and>
   entry_of_line (version_py ! 23) = Some (''0.9.0'', True) \<and>
   \<not> commented_out (version_py ! 23)"
proof -
  have draft: "entry_of_line (version_py ! 27) = Some (''0.0.3'', False)"
    by (simp add: version_py_def version_name_def entry_of_line_def version_assigned_def
          lexer_defs)
  have shipped: "entry_of_line (version_py ! 23) = Some (''0.9.0'', True)"
    by (simp add: version_py_def version_name_def entry_of_line_def version_assigned_def
          lexer_defs)
  from released_iff_not_commented_out draft shipped show ?thesis
    by blast
qed

text \<open>
  Claim C5: the version of every record is a semantic version string, a non-empty
  sequence of decimal numbers separated by dots. All nine versions of the log are.
\<close>

theorem versions_are_semver:
  "list_all is_semver (map version (release_log version_py)) \<and>
   length (release_log version_py) = 9"
proof
  show "list_all is_semver (map version (release_log version_py))"
    by (simp add: versions_version_py is_semver_def version_numbers)
  have "length (release_log version_py) = length (map version (release_log version_py))"
    by simp
  then show "length (release_log version_py) = 9"
    by (simp only: versions_version_py) simp
qed

text \<open>
  Claim C8: the nine versions of the log are pairwise distinct, so no entry shadows
  another, and any two of them are comparable: the records are totally ordered.
\<close>

theorem versions_distinct:
  "distinct (map version (release_log version_py)) \<and>
   length (map version (release_log version_py)) = 9 \<and>
   list_all (\<lambda>a. list_all (\<lambda>b. a = b \<or> semver_less a b \<or> semver_less b a)
                (map version (release_log version_py)))
     (map version (release_log version_py))"
  by (simp add: versions_version_py semver_less_def version_numbers)

section \<open>The order of the log\<close>

text \<open>
  Claim C6: read from the bottom of the file to its top, the versions of the records are
  strictly increasing, each one greater than every one below it.
\<close>

theorem versions_increase_bottom_to_top:
  "sorted_wrt semver_less (rev (map version (release_log version_py)))"
  by (simp add: versions_version_py semver_less_def version_numbers)

text \<open>
  Claim C2 says the versions are strictly increasing when the records are read from the
  top of the file to its bottom. They are not: the file lists the newest record first,
  and 1.0.4 on the first line is followed by 1.0.3.
\<close>

theorem versions_increase_top_to_bottom_counterexample:
  "\<not> sorted_wrt semver_less (map version (release_log version_py))"
  by (simp add: versions_version_py semver_less_def version_numbers)

text \<open>
  Claim C2, amended: read from the top of the file to its bottom, the versions of the
  records are strictly decreasing, each one smaller than every one above it.
\<close>

theorem versions_decrease_top_to_bottom:
  "sorted_wrt (\<lambda>a b. semver_less b a) (map version (release_log version_py))"
  by (simp add: versions_version_py semver_less_def version_numbers)

end
